theory Spec2Isabelle
  imports Main "HOL-Library.AList"
begin

section \<open>JavaScript values and strings\<close>

text \<open>
  Both halves of the repository (the Express proxy and the React client) handle values
  that come out of \<^verbatim>\<open>JSON.parse\<close> or out of the spreadsheet API. They are modelled by
  one datatype. \<open>JUndefined\<close> is the value of a missing property or of an array index
  out of range.

  A number is an \<^typ>\<open>int\<close>: the integer-valued numbers, which is what row numbers,
  indices and the captcha answer are; \<^verbatim>\<open>NaN\<close> arises only as a result of
  \<^verbatim>\<open>parseInt\<close> and is \<open>None\<close> there. A string is the list of its code units, each an
  8-bit \<^typ>\<open>char\<close>: the strings whose code units are below 256, with the white space
  and the letters of that range.
\<close>

datatype jsval =
    JUndefined
  | JNull
  | JBool bool
  | JNum int
  | JStr string
  | JArr "jsval list"
  | JObj "(string \<times> jsval) list"

definition dq :: char where
  "dq = CHR 0x22"

definition LF :: char where
  "LF = CHR 0x0A"

definition CR :: char where
  "CR = CHR 0x0D"

text \<open>
  The white space of \<^verbatim>\<open>String.prototype.trim\<close>, of the regular expression class
  \<^verbatim>\<open>\s\<close> and of \<^verbatim>\<open>parseInt\<close>: tab, line feed, vertical tab, form feed, carriage
  return, space and no-break space (the members below code unit 256).
\<close>

definition isWhiteSpace :: "char \<Rightarrow> bool" where
  "isWhiteSpace c = ((of_char c :: nat) \<in> {9, 10, 11, 12, 13, 32, 160})"

definition trimStart :: "string \<Rightarrow> string" where
  "trimStart s = dropWhile isWhiteSpace s"

definition trimEnd :: "string \<Rightarrow> string" where
  "trimEnd s = rev (dropWhile isWhiteSpace (rev s))"

definition trim :: "string \<Rightarrow> string" where
  "trim s = trimEnd (trimStart s)"

text \<open>
  Upper-casing of one code unit: the letters a to z. The other code units below 128 have
  no upper-case form; no code unit at all other than r, u, n and R, U, N upper-cases to
  one of R, U, N, which is all the comparison with \<^verbatim>\<open>"RUN"\<close> and the case-insensitive
  match of \<^verbatim>\<open>=IMAGE(\<close> depend on.
\<close>

definition upperChar :: "char \<Rightarrow> char" where
  "upperChar c =
     (let n = (of_char c :: nat) in if 97 \<le> n \<and> n \<le> 122 then char_of (n - 32) else c)"

definition toUpperCase :: "string \<Rightarrow> string" where
  "toUpperCase s = map upperChar s"

definition isDigit :: "char \<Rightarrow> bool" where
  "isDigit c = (let n = (of_char c :: nat) in 48 \<le> n \<and> n \<le> 57)"

text \<open>Array index read \<^verbatim>\<open>xs[i]\<close>: \<^verbatim>\<open>undefined\<close> out of range.\<close>

definition at_index :: "jsval list \<Rightarrow> nat \<Rightarrow> jsval" where
  "at_index xs i = (if i < length xs then xs ! i else JUndefined)"

text \<open>\<^verbatim>\<open>a ?? b\<close>\<close>

definition nullish :: "jsval \<Rightarrow> jsval \<Rightarrow> jsval" where
  "nullish a b = (if a = JUndefined \<or> a = JNull then b else a)"

subsection \<open>\<^verbatim>\<open>String(v)\<close>\<close>

fun showNat :: "nat \<Rightarrow> string" where
  "showNat n =
     (if n < 10 then [char_of (48 + n)]
      else showNat (n div 10) @ [char_of (48 + n mod 10)])"

definition showInt :: "int \<Rightarrow> string" where
  "showInt i = (if i < 0 then CHR ''-'' # showNat (nat (- i)) else showNat (nat i))"

fun joinComma :: "string list \<Rightarrow> string" where
  "joinComma [] = []"
| "joinComma [s] = s"
| "joinComma (s # t # ss) = s @ CHR '','' # joinComma (t # ss)"

fun js_String :: "jsval \<Rightarrow> string" where
  "js_String JUndefined = ''undefined''"
| "js_String JNull = ''null''"
| "js_String (JBool b) = (if b then ''true'' else ''false'')"
| "js_String (JNum n) = showInt n"
| "js_String (JStr s) = s"
| "js_String (JArr xs) =
     joinComma (map (\<lambda>x. if x = JUndefined \<or> x = JNull then [] else js_String x) xs)"
| "js_String (JObj kvs) = ''[object Object]''"

section \<open>The proxy: \<^verbatim>\<open>normalizeImageValue\<close>\<close>

text \<open>
  The regular expression \<^verbatim>\<open>/^=IMAGE\(\s*"([^"]+)"(?:,.*)?\)$/i\<close>, piece by piece.
  \<open>tailMatch\<close> is \<^verbatim>\<open>(?:,.*)?\)$\<close>: either the closing parenthesis alone, or a comma,
  any characters other than line terminators, and the closing parenthesis at the very
  end of the input.
\<close>

definition isLineTerminator :: "char \<Rightarrow> bool" where
  "isLineTerminator c = (c = LF \<or> c = CR)"

definition tailMatch :: "string \<Rightarrow> bool" where
  "tailMatch r =
     (r = '')'' \<or>
      (2 \<le> length r \<and> hd r = CHR '','' \<and> last r = CHR '')'' \<and>
       list_all (\<lambda>c. \<not> isLineTerminator c) (butlast (tl r))))"

text \<open>
  \<open>imageFormulaMatch t\<close> is capture group 1 of the match, \<open>None\<close> when \<open>t\<close> does not
  match: the seven characters \<^verbatim>\<open>=IMAGE(\<close> in either case, white space, a double quote,
  the longest run of characters other than a double quote (the group; not empty), a
  double quote, and the tail.
\<close>

definition imageFormulaMatch :: "string \<Rightarrow> string option" where
  "imageFormulaMatch t =
     (if toUpperCase (take 7 t) = ''=IMAGE('' then
        (case dropWhile isWhiteSpace (drop 7 t) of
           [] \<Rightarrow> None
         | q # r \<Rightarrow>
             if q = dq then
               (let url = takeWhile (\<lambda>c. c \<noteq> dq) r;
                    rest = dropWhile (\<lambda>c. c \<noteq> dq) r
                in if url \<noteq> [] \<and> rest \<noteq> [] \<and> tailMatch (tl rest) then Some url else None)
             else None)
      else None)"

text \<open>
  The same in the words of the regular expression, not for running: the strings it
  matches, with the group. The group cannot hold a double quote, so a string that matches
  does so with one group only, and \<open>imageFormulaMatch\<close> is the function of this
  relation (lemma \<open>imageFormulaMatch_shape\<close>).
\<close>

definition formulaShape :: "string \<Rightarrow> string \<Rightarrow> bool" where
  "formulaShape t u =
     (\<exists>p ws tail.
        t = p @ ws @ [dq] @ u @ [dq] @ tail \<and>
        length p = 7 \<and> toUpperCase p = ''=IMAGE('' \<and>
        list_all isWhiteSpace ws \<and>
        u \<noteq> [] \<and> dq \<notin> set u \<and>
        (tail = '')'' \<or>
         (\<exists>mid. tail = '','' @ mid @ '')'' \<and> list_all (\<lambda>c. \<not> isLineTerminator c) mid)))"

definition unwrapImage :: "string \<Rightarrow> string" where
  "unwrapImage v =
     (let trimmed = trim v
      in case imageFormulaMatch trimmed of Some url \<Rightarrow> url | None \<Rightarrow> trimmed)"

definition normalizeImageValue :: "jsval \<Rightarrow> jsval" where
  "normalizeImageValue v =
     (if v = JUndefined \<or> v = JNull then JStr []
      else case v of JStr s \<Rightarrow> JStr (unwrapImage s) | _ \<Rightarrow> v)"

section \<open>The proxy: \<^verbatim>\<open>handleGetState\<close> and \<^verbatim>\<open>handleUpdateCell\<close>\<close>

record SheetLogEntry =
  row :: int
  text' :: string

text \<open>The \<^verbatim>\<open>data\<close> object of the get-state response, one field per key.\<close>

record state_data =
  A2 :: jsval
  B2 :: jsval
  C2 :: jsval
  C3 :: jsval
  imageUrl :: jsval
  D2 :: jsval
  E2 :: jsval
  logs :: "SheetLogEntry list"

text \<open>\<^verbatim>\<open>const [firstRow] = rows\<close> and the optional read \<^verbatim>\<open>firstRow?.[i]\<close>.\<close>

definition firstRow :: "jsval list list \<Rightarrow> jsval list option" where
  "firstRow rows = (case rows of [] \<Rightarrow> None | r # _ \<Rightarrow> Some r)"

definition opt_index :: "jsval list option \<Rightarrow> nat \<Rightarrow> jsval" where
  "opt_index r i = (case r of None \<Rightarrow> JUndefined | Some cells \<Rightarrow> at_index cells i)"

definition imageRow :: "jsval list list \<Rightarrow> jsval list option" where
  "imageRow rows = (if length rows > 1 then Some (rows ! 1) else firstRow rows)"

definition imageValue :: "jsval list list \<Rightarrow> jsval" where
  "imageValue rows =
     (case imageRow rows of
        Some r \<Rightarrow> if length r \<ge> 3 then at_index r 2 else opt_index (firstRow rows) 2
      | None \<Rightarrow> opt_index (firstRow rows) 2)"

text \<open>
  \<^verbatim>\<open>typeof row[4] === "string" ? row[4] : String(row[4] ?? "")\<close>
\<close>

definition logText :: "jsval list \<Rightarrow> string" where
  "logText r =
     (case at_index r 4 of
        JStr s \<Rightarrow> s
      | v \<Rightarrow> js_String (nullish v (JStr [])))"

definition logEntry :: "nat \<times> jsval list \<Rightarrow> SheetLogEntry" where
  "logEntry p = \<lparr>row = int (fst p) + 2, text' = logText (snd p)\<rparr>"

definition keepEntry :: "SheetLogEntry \<Rightarrow> bool" where
  "keepEntry entry = (text' entry \<noteq> [] \<and> trim (text' entry) \<noteq> [])"

definition getStateData :: "jsval list list \<Rightarrow> state_data" where
  "getStateData rows =
     \<lparr>A2 = nullish (opt_index (firstRow rows) 0) (JStr []),
      B2 = nullish (opt_index (firstRow rows) 1) (JStr []),
      C2 = normalizeImageValue (opt_index (firstRow rows) 2),
      C3 = normalizeImageValue (imageValue rows),
      imageUrl = normalizeImageValue (imageValue rows),
      D2 = nullish (opt_index (firstRow rows) 3) (JStr []),
      E2 = nullish (opt_index (firstRow rows) 4) (JStr []),
      logs = filter keepEntry (map logEntry (enumerate 0 rows))\<rparr>"

text \<open>
  What a handler can catch: an \<^verbatim>\<open>Error\<close> or a \<^verbatim>\<open>TypeError\<close> (which is an
  \<^verbatim>\<open>Error\<close>) with its message, or any other thrown value.
\<close>

datatype thrown = Error string | TypeError string | Thrown jsval

text \<open>
  The configuration read from the process environment and the spreadsheet service.
  \<open>getSheetsClient\<close> is the outcome of the call of that name (\<open>None\<close>: it resolved),
  \<open>values_get\<close> that of \<^verbatim>\<open>spreadsheets.values.get\<close> for a range (the \<^verbatim>\<open>values\<close> of
  the response, which may be absent), \<open>values_update\<close> that of
  \<^verbatim>\<open>spreadsheets.values.update\<close> for a range and a value.
\<close>

record server =
  SHEET_ID :: "string option"
  SHEET_NAME :: string
  getSheetsClient :: "thrown option"
  values_get :: "string \<Rightarrow> thrown + jsval list list option"
  values_update :: "string \<Rightarrow> jsval \<Rightarrow> thrown option"

text \<open>
  The calls a handler makes towards the spreadsheet service, in order: \<open>Authorize\<close> is
  the call of \<^verbatim>\<open>getSheetsClient\<close> (which decodes the credential and authorises), the
  other two the read of a range and the write of a value to a range.
\<close>

datatype remote_call = Authorize | ValuesGet string | ValuesUpdate string jsval

datatype envelope = Failed string | Succeeded | SucceededWith state_data

record reply =
  status :: nat
  body :: envelope

definition missingSheetId :: "server \<Rightarrow> bool" where
  "missingSheetId srv = (SHEET_ID srv = None \<or> SHEET_ID srv = Some [])"

definition errorMessage :: "thrown \<Rightarrow> string \<Rightarrow> string" where
  "errorMessage e fallback = (case e of Error m \<Rightarrow> m | TypeError m \<Rightarrow> m | Thrown _ \<Rightarrow> fallback)"

definition handleGetState :: "server \<Rightarrow> reply \<times> remote_call list" where
  "handleGetState srv =
     (if missingSheetId srv then
        (\<lparr>status = 500, body = Failed ''Missing GOOGLE_SHEET_ID on server''\<rparr>, [])
      else case getSheetsClient srv of
        Some e \<Rightarrow>
          (\<lparr>status = 500, body = Failed (errorMessage e ''Unknown error when reading sheet'')\<rparr>,
           [Authorize])
      | None \<Rightarrow>
          (let range = SHEET_NAME srv @ ''!A2:E''
           in case values_get srv range of
                Inl e \<Rightarrow>
                  (\<lparr>status = 500,
                    body = Failed (errorMessage e ''Unknown error when reading sheet'')\<rparr>,
                   [Authorize, ValuesGet range])
              | Inr values \<Rightarrow>
                  (\<lparr>status = 200,
                    body = SucceededWith
                      (getStateData (case values of None \<Rightarrow> [] | Some rows \<Rightarrow> rows))\<rparr>,
                   [Authorize, ValuesGet range])))"

text \<open>Property read \<^verbatim>\<open>o.k\<close> on a value that is not \<^verbatim>\<open>null\<close> or \<^verbatim>\<open>undefined\<close>,
  for the keys the code reads (none of them a property of a string, number, boolean or
  array).\<close>

definition getField :: "jsval \<Rightarrow> string \<Rightarrow> jsval" where
  "getField v k =
     (case v of
        JObj kvs \<Rightarrow> (case map_of kvs k of Some x \<Rightarrow> x | None \<Rightarrow> JUndefined)
      | _ \<Rightarrow> JUndefined)"

definition falsy :: "jsval \<Rightarrow> bool" where
  "falsy v = (v = JUndefined \<or> v = JNull \<or> v = JBool False \<or> v = JNum 0 \<or> v = JStr [])"

definition isString :: "jsval \<Rightarrow> bool" where
  "isString v = (case v of JStr _ \<Rightarrow> True | _ \<Rightarrow> False)"

definition missingCellMessage :: string where
  "missingCellMessage = ''Missing cell field (e.g., '' @ [CHR 0x27] @ ''A2'' @ [CHR 0x27] @ '')''"

definition handleUpdateCell :: "server \<Rightarrow> jsval \<Rightarrow> reply \<times> remote_call list" where
  "handleUpdateCell srv req_body =
     (if missingSheetId srv then
        (\<lparr>status = 500, body = Failed ''Missing GOOGLE_SHEET_ID on server''\<rparr>, [])
      else
        (let b = (if falsy req_body then JObj [] else req_body);
             cell = getField b ''cell'';
             val = getField b ''value''
         in case cell of
              JStr c \<Rightarrow>
                (case getSheetsClient srv of
                   Some e \<Rightarrow>
                     (\<lparr>status = 500,
                       body = Failed (errorMessage e ''Unknown error when updating sheet'')\<rparr>,
                      [Authorize])
                 | None \<Rightarrow>
                     (let range = SHEET_NAME srv @ ''!'' @ c;
                          v = nullish val (JStr [])
                      in case values_update srv range v of
                           Some e \<Rightarrow>
                             (\<lparr>status = 500,
                               body = Failed
                                 (errorMessage e ''Unknown error when updating sheet'')\<rparr>,
                              [Authorize, ValuesUpdate range v])
                         | None \<Rightarrow>
                             (\<lparr>status = 200, body = Succeeded\<rparr>,
                              [Authorize, ValuesUpdate range v])))
            | _ \<Rightarrow> (\<lparr>status = 400, body = Failed missingCellMessage\<rparr>, [])))"

section \<open>The client: \<^verbatim>\<open>sheetRequest\<close> and the calls built on it\<close>

text \<open>
  A request as \<^verbatim>\<open>fetch\<close> receives it; \<open>payload\<close> is the object handed to
  \<^verbatim>\<open>JSON.stringify\<close>. Of a response the code reads \<^verbatim>\<open>ok\<close>, \<^verbatim>\<open>status\<close>,
  \<^verbatim>\<open>statusText\<close> and \<^verbatim>\<open>json()\<close>; \<open>parsed\<close> is \<open>None\<close> when the body is not JSON
  and \<^verbatim>\<open>json()\<close> rejects.
\<close>

record request =
  url :: string
  http_method :: string
  content_type :: string
  payload :: "(string \<times> jsval) list"

record response =
  code :: nat
  statusText :: string
  parsed :: "jsval option"

text \<open>
  The environment of the client: the configured endpoint and the network. \<open>fetch\<close> gives
  the rejection of the promise (\<open>Inl\<close>) or the response.
\<close>

record client =
  VITE_SHEET_WEBAPP_URL :: "string option"
  fetch :: "request \<Rightarrow> thrown + response"

definition getScriptUrl :: "client \<Rightarrow> thrown + string" where
  "getScriptUrl env =
     (case VITE_SHEET_WEBAPP_URL env of
        None \<Rightarrow> Inl (Error
          ''Missing environment variable VITE_SHEET_WEBAPP_URL pointing to the sheet API endpoint.'')
      | Some u \<Rightarrow>
          if u = [] then Inl (Error
            ''Missing environment variable VITE_SHEET_WEBAPP_URL pointing to the sheet API endpoint.'')
          else Inr u)"

text \<open>The object literal \<^verbatim>\<open>{ action, ...payload }\<close>: a key of the payload that is
  already there keeps its place and takes the new value.\<close>

definition requestBody :: "string \<Rightarrow> (string \<times> jsval) list \<Rightarrow> (string \<times> jsval) list" where
  "requestBody act pl = fold (\<lambda>kv obj. AList.update (fst kv) (snd kv) obj) pl [(''action'', JStr act)]"

definition ok :: "response \<Rightarrow> bool" where
  "ok r = (200 \<le> code r \<and> code r \<le> 299)"

text \<open>
  A property read on \<^verbatim>\<open>null\<close> or \<^verbatim>\<open>undefined\<close> throws a \<^verbatim>\<open>TypeError\<close> (the message
  is the engine's; V8's wording is used).
\<close>

definition readProp :: "jsval \<Rightarrow> string \<Rightarrow> thrown + jsval" where
  "readProp v k =
     (if v = JNull \<or> v = JUndefined then
        Inl (TypeError (''Cannot read properties of '' @ js_String v @ '' (reading '' @
                        [CHR 0x27] @ k @ [CHR 0x27] @ '')''))
      else Inr (getField v k))"

text \<open>Lines 99 to 123 of \<^verbatim>\<open>sheetRequest\<close>: what is made of a response.\<close>

definition sheetResponse :: "response \<Rightarrow> thrown + jsval" where
  "sheetResponse r =
     (if \<not> ok r then
        Inl (Error (''Sheet request failed: '' @ showNat (code r) @ '' '' @ statusText r))
      else
        (let json = (case parsed r of None \<Rightarrow> JObj [] | Some j \<Rightarrow> j)
         in case readProp json ''success'' of
              Inl e \<Rightarrow> Inl e
            | Inr success \<Rightarrow>
                if success = JBool False then
                  Inl (Error (case getField json ''error'' of
                                JStr m \<Rightarrow> m
                              | _ \<Rightarrow> ''Sheet request returned an error.''))
                else Inr (nullish (getField json ''data'') json)))"

definition sheetRequest ::
  "client \<Rightarrow> string \<Rightarrow> (string \<times> jsval) list \<Rightarrow> (thrown + jsval) \<times> request list" where
  "sheetRequest env act pl =
     (case getScriptUrl env of
        Inl e \<Rightarrow> (Inl e, [])
      | Inr u \<Rightarrow>
          (let req = \<lparr>url = u, http_method = ''POST'', content_type = ''application/json'',
                      payload = requestBody act pl\<rparr>
           in case fetch env req of
                Inl e \<Rightarrow> (Inl e, [req])
              | Inr r \<Rightarrow> (sheetResponse r, [req])))"

definition triggerRun :: "client \<Rightarrow> thrown option \<times> request list" where
  "triggerRun env =
     (case sheetRequest env ''update-cell'' [(''cell'', JStr ''A2''), (''value'', JStr ''RUN'')] of
        (Inl e, reqs) \<Rightarrow> (Some e, reqs)
      | (Inr _, reqs) \<Rightarrow> (None, reqs))"

definition submitAnswer :: "client \<Rightarrow> string \<Rightarrow> thrown option \<times> request list" where
  "submitAnswer env answer =
     (case sheetRequest env ''update-cell'' [(''cell'', JStr ''D2''), (''value'', JStr answer)] of
        (Inl e, reqs) \<Rightarrow> (Some e, reqs)
      | (Inr _, reqs) \<Rightarrow> (None, reqs))"

section \<open>The client: \<^verbatim>\<open>collectLogs\<close>\<close>

text \<open>\<^verbatim>\<open>parseInt(s, 10)\<close>: leading white space, an optional sign, the longest run of
  digits; \<open>None\<close> is \<^verbatim>\<open>NaN\<close>.\<close>

definition digitsValue :: "string \<Rightarrow> nat" where
  "digitsValue ds = foldl (\<lambda>a c. 10 * a + (of_char c - 48)) 0 ds"

definition parseInt :: "string \<Rightarrow> int option" where
  "parseInt s =
     (let s1 = dropWhile isWhiteSpace s;
          neg = (take 1 s1 = ''-'');
          s2 = (if take 1 s1 = ''-'' \<or> take 1 s1 = ''+'' then drop 1 s1 else s1);
          ds = takeWhile isDigit s2
      in if ds = [] then None
         else Some (if neg then - int (digitsValue ds) else int (digitsValue ds)))"

text \<open>\<^verbatim>\<open>s.split(/\r?\n/)\<close>\<close>

fun splitLines :: "string \<Rightarrow> string list" where
  "splitLines [] = [[]]"
| "splitLines (c # cs) =
     (if c = LF then [] # splitLines cs
      else if c = CR \<and> take 1 cs = [LF] then [] # splitLines (drop 1 cs)
      else (case splitLines cs of l # ls \<Rightarrow> (c # l) # ls | [] \<Rightarrow> [[c]]))"

text \<open>
  The \<^verbatim>\<open>Map<number, string>\<close> named \<^verbatim>\<open>entries\<close>, in insertion order: \<^verbatim>\<open>set\<close> on a key
  that is present replaces the value where the key stands, on a new key appends.
\<close>

type_synonym entries = "(int \<times> string) list"

definition assign :: "int \<Rightarrow> jsval \<Rightarrow> entries \<Rightarrow> entries" where
  "assign r v es =
     (case v of
        JStr s \<Rightarrow> if trim s \<noteq> [] then AList.update r s es else es
      | _ \<Rightarrow> es)"

text \<open>The operands of the \<^verbatim>\<open>||\<close> chain are numbers or \<^verbatim>\<open>false\<close>; one that is
  \<^verbatim>\<open>false\<close>, \<^verbatim>\<open>NaN\<close> or \<^verbatim>\<open>0\<close> passes to the next.\<close>

definition truthy :: "int option \<Rightarrow> int option" where
  "truthy n = (case n of None \<Rightarrow> None | Some k \<Rightarrow> if k = 0 then None else Some k)"

definition numberOf :: "jsval \<Rightarrow> int option" where
  "numberOf v = (case v of JNum n \<Rightarrow> Some n | _ \<Rightarrow> None)"

definition rowCandidate :: "nat \<Rightarrow> jsval \<Rightarrow> int" where
  "rowCandidate index obj =
     (case truthy (numberOf (getField obj ''row'')) of
        Some k \<Rightarrow> k
      | None \<Rightarrow>
     (case truthy (parseInt (js_String (getField obj ''row''))) of
        Some k \<Rightarrow> k
      | None \<Rightarrow>
     (case truthy (map_option (\<lambda>n. n + 2) (numberOf (getField obj ''index''))) of
        Some k \<Rightarrow> k
      | None \<Rightarrow>
     (case truthy (map_option (\<lambda>n. n + 2)
                    (parseInt (js_String (nullish (getField obj ''index'') (JNum (int index)))))) of
        Some k \<Rightarrow> k
      | None \<Rightarrow> int index + 2))))"

definition textCandidate :: "jsval \<Rightarrow> string option" where
  "textCandidate obj =
     (case getField obj ''text'' of
        JStr t \<Rightarrow> Some t
      | _ \<Rightarrow> (case getField obj ''value'' of JStr t \<Rightarrow> Some t | _ \<Rightarrow> None))"

definition hasKey :: "string \<Rightarrow> (string \<times> jsval) list \<Rightarrow> bool" where
  "hasKey k kvs = (k \<in> set (map fst kvs))"

text \<open>The call \<^verbatim>\<open>assign(row, value)\<close> that the body of \<^verbatim>\<open>fromArray\<close> makes for the
  item at an index, if it makes one.\<close>

definition itemCall :: "nat \<times> jsval \<Rightarrow> (int \<times> jsval) option" where
  "itemCall p =
     (case snd p of
        JStr s \<Rightarrow> Some (int (fst p) + 2, JStr s)
      | JObj kvs \<Rightarrow>
          if hasKey ''row'' kvs \<or> hasKey ''index'' kvs \<or> hasKey ''text'' kvs then
            (case textCandidate (JObj kvs) of
               Some t \<Rightarrow> if t \<noteq> [] then Some (rowCandidate (fst p) (JObj kvs), JStr t) else None
             | None \<Rightarrow> None)
          else None
      | _ \<Rightarrow> None)"

definition fromArray :: "jsval list \<Rightarrow> entries \<Rightarrow> entries" where
  "fromArray arr es =
     fold (\<lambda>p acc. case itemCall p of Some (r, v) \<Rightarrow> assign r v acc | None \<Rightarrow> acc)
       (enumerate 0 arr) es"

definition logLines :: "string \<Rightarrow> string list" where
  "logLines s = filter (\<lambda>line. line \<noteq> []) (map trim (splitLines s))"

definition fromLines :: "string list \<Rightarrow> entries \<Rightarrow> entries" where
  "fromLines ls es =
     fold (\<lambda>p acc. assign (int (fst p) + 2) (JStr (snd p)) acc) (enumerate 0 ls) es"

text \<open>\<^verbatim>\<open>key.match(/^E(\d+)$/i)\<close> and \<^verbatim>\<open>parseInt(match[1], 10)\<close>\<close>

definition keyRow :: "string \<Rightarrow> int option" where
  "keyRow key =
     (case key of
        [] \<Rightarrow> None
      | c # ds \<Rightarrow>
          if (c = CHR ''E'' \<or> c = CHR ''e'') \<and> ds \<noteq> [] \<and> list_all isDigit ds
          then parseInt ds else None)"

text \<open>\<^verbatim>\<open>Object.entries(raw)\<close>. The pairs of a \<open>JObj\<close> stand in the order in which
  \<^verbatim>\<open>Object.entries\<close> enumerates them; an array and a string have their indices as
  keys, the other values no entries.\<close>

definition objectEntries :: "jsval \<Rightarrow> (string \<times> jsval) list" where
  "objectEntries v =
     (case v of
        JObj kvs \<Rightarrow> kvs
      | JArr xs \<Rightarrow> map (\<lambda>p. (showNat (fst p), snd p)) (enumerate 0 xs)
      | JStr s \<Rightarrow> map (\<lambda>p. (showNat (fst p), JStr [snd p])) (enumerate 0 s)
      | _ \<Rightarrow> [])"

definition fromKeys :: "(string \<times> jsval) list \<Rightarrow> entries \<Rightarrow> entries" where
  "fromKeys kvs es =
     fold (\<lambda>kv acc. case keyRow (fst kv) of Some r \<Rightarrow> assign r (snd kv) acc | None \<Rightarrow> acc)
       kvs es"

definition collectEntries :: "jsval \<Rightarrow> entries" where
  "collectEntries raw =
     (let es1 = (case getField raw ''logs'' of JArr a \<Rightarrow> fromArray a [] | _ \<Rightarrow> []);
          es2 = (case getField raw ''log'' of JArr a \<Rightarrow> fromArray a es1 | _ \<Rightarrow> es1);
          es3 = (case getField raw ''log'' of JStr s \<Rightarrow> fromLines (logLines s) es2 | _ \<Rightarrow> es2)
      in fromKeys (objectEntries raw) es3)"

definition collectLogs :: "jsval \<Rightarrow> SheetLogEntry list" where
  "collectLogs raw =
     map (\<lambda>p. \<lparr>row = fst p, text' = snd p\<rparr>) (sort_key fst (collectEntries raw))"

text \<open>
  The calls \<^verbatim>\<open>assign(row, value)\<close> that \<^verbatim>\<open>collectLogs\<close> makes, in the order it makes them,
  and those among them that \<^verbatim>\<open>assign\<close> stores: the ones with a string that is not blank.
\<close>

definition arrayCalls :: "jsval list \<Rightarrow> (int \<times> jsval) list" where
  "arrayCalls arr = List.map_filter itemCall (enumerate 0 arr)"

definition lineCalls :: "string list \<Rightarrow> (int \<times> jsval) list" where
  "lineCalls ls = map (\<lambda>p. (int (fst p) + 2, JStr (snd p))) (enumerate 0 ls)"

definition keyCalls :: "(string \<times> jsval) list \<Rightarrow> (int \<times> jsval) list" where
  "keyCalls kvs = List.map_filter (\<lambda>kv. map_option (\<lambda>r. (r, snd kv)) (keyRow (fst kv))) kvs"

definition assignCalls :: "jsval \<Rightarrow> (int \<times> jsval) list" where
  "assignCalls raw =
     (case getField raw ''logs'' of JArr a \<Rightarrow> arrayCalls a | _ \<Rightarrow> []) @
     (case getField raw ''log'' of JArr a \<Rightarrow> arrayCalls a | _ \<Rightarrow> []) @
     (case getField raw ''log'' of JStr s \<Rightarrow> lineCalls (logLines s) | _ \<Rightarrow> []) @
     keyCalls (objectEntries raw)"

definition stored :: "int \<times> jsval \<Rightarrow> (int \<times> string) option" where
  "stored c = (case snd c of JStr s \<Rightarrow> if trim s \<noteq> [] then Some (fst c, s) else None | _ \<Rightarrow> None)"

definition lastStored :: "(int \<times> jsval) list \<Rightarrow> int \<Rightarrow> string option" where
  "lastStored calls r = map_of (rev (List.map_filter stored calls)) r"

section \<open>The client: \<^verbatim>\<open>fetchSheetState\<close> and the hook \<^verbatim>\<open>useSheetState\<close>\<close>

record SheetState =
  action :: "string option"
  time :: "string option"
  imageUrl' :: "string option"
  answer :: "string option"
  log :: "string option"
  logs' :: "SheetLogEntry list"

definition getString :: "jsval \<Rightarrow> string option" where
  "getString v = (case v of JStr s \<Rightarrow> Some s | _ \<Rightarrow> None)"

definition orElse :: "'a option \<Rightarrow> 'a option \<Rightarrow> 'a option" where
  "orElse a b = (case a of None \<Rightarrow> b | Some x \<Rightarrow> Some x)"

definition toSheetState :: "jsval \<Rightarrow> SheetState" where
  "toSheetState d =
     \<lparr>action = orElse (getString (getField d ''action'')) (getString (getField d ''A2'')),
      time = orElse (getString (getField d ''time'')) (getString (getField d ''B2'')),
      imageUrl' = orElse (getString (getField d ''imageUrl''))
                    (orElse (getString (getField d ''C3'')) (getString (getField d ''C2''))),
      answer = orElse (getString (getField d ''answer'')) (getString (getField d ''D2'')),
      log = orElse (getString (getField d ''log'')) (getString (getField d ''E2'')),
      logs' = collectLogs d\<rparr>"

definition fetchSheetState :: "client \<Rightarrow> (thrown + SheetState) \<times> request list" where
  "fetchSheetState env =
     (case sheetRequest env ''get-state'' [] of
        (Inl e, reqs) \<Rightarrow> (Inl e, reqs)
      | (Inr d, reqs) \<Rightarrow> (Inr (toSheetState d), reqs))"

text \<open>
  The state of one \<^verbatim>\<open>useSheetState\<close> hook: the four React state cells, the ref with the
  timer handle (\<open>None\<close> is \<^verbatim>\<open>undefined\<close>), and of the window the interval timers that
  are running (handle and period), the last handle handed out, and the effects the hook
  has caused, in order. \<^verbatim>\<open>window.setInterval\<close> returns a handle greater than zero that
  is not in use.
\<close>

datatype effect = ClearInterval nat | FetchCall | SetInterval nat nat

record hook =
  state :: "SheetState option"
  loading :: bool
  error :: "string option"
  polling :: bool
  timerRef :: "nat option"
  intervals :: "(nat \<times> nat) list"
  last_handle :: nat
  effects :: "effect list"

definition DEFAULT_POLL_INTERVAL :: nat where
  "DEFAULT_POLL_INTERVAL = 2000"

text \<open>The parameter \<^verbatim>\<open>pollInterval = DEFAULT_POLL_INTERVAL\<close> of the hook.\<close>

definition pollIntervalOf :: "nat option \<Rightarrow> nat" where
  "pollIntervalOf arg = (case arg of None \<Rightarrow> DEFAULT_POLL_INTERVAL | Some p \<Rightarrow> p)"

definition mounted :: hook where
  "mounted =
     \<lparr>state = None, loading = False, error = None, polling = False, timerRef = None,
      intervals = [], last_handle = 0, effects = []\<rparr>"

definition clearInterval :: "nat \<Rightarrow> hook \<Rightarrow> hook" where
  "clearInterval h s =
     s\<lparr>intervals := filter (\<lambda>t. fst t \<noteq> h) (intervals s),
       effects := effects s @ [ClearInterval h]\<rparr>"

definition setInterval :: "nat \<Rightarrow> hook \<Rightarrow> nat \<times> hook" where
  "setInterval period s =
     (let h = Suc (last_handle s)
      in (h, s\<lparr>intervals := intervals s @ [(h, period)], last_handle := h,
               effects := effects s @ [SetInterval h period]\<rparr>))"

definition stopPolling :: "hook \<Rightarrow> hook" where
  "stopPolling s =
     (let s1 = (case timerRef s of
                  None \<Rightarrow> s
                | Some h \<Rightarrow> if h = 0 then s else (clearInterval h s)\<lparr>timerRef := None\<rparr>)
      in s1\<lparr>polling := False\<rparr>)"

text \<open>
  \<^verbatim>\<open>load\<close> runs in two parts: up to the \<^verbatim>\<open>await\<close>, where the fetch is started, and
  from the settlement of the promise on, with the outcome of \<^verbatim>\<open>fetchSheetState\<close>.
\<close>

definition load_begin :: "hook \<Rightarrow> hook" where
  "load_begin s = s\<lparr>loading := True, error := None, effects := effects s @ [FetchCall]\<rparr>"

definition thrownMessage :: "thrown \<Rightarrow> string" where
  "thrownMessage e = (case e of Error m \<Rightarrow> m | TypeError m \<Rightarrow> m | Thrown v \<Rightarrow> js_String v)"

definition statusOf :: "SheetState \<Rightarrow> string" where
  "statusOf sheetState =
     toUpperCase (trim (case action sheetState of None \<Rightarrow> [] | Some a \<Rightarrow> a))"

definition load_end :: "thrown + SheetState \<Rightarrow> hook \<Rightarrow> hook" where
  "load_end outcome s =
     (case outcome of
        Inr sheetState \<Rightarrow>
          (let s1 = s\<lparr>state := Some sheetState\<rparr>;
               s2 = (if statusOf sheetState \<noteq> ''RUN'' then stopPolling s1 else s1)
           in s2\<lparr>loading := False\<rparr>)
      | Inl err \<Rightarrow>
          (stopPolling (s\<lparr>error := Some (thrownMessage err)\<rparr>))\<lparr>loading := False\<rparr>)"

definition load :: "client \<Rightarrow> hook \<Rightarrow> hook" where
  "load env s = load_end (fst (fetchSheetState env)) (load_begin s)"

definition startPolling :: "nat \<Rightarrow> hook \<Rightarrow> hook" where
  "startPolling pollInterval s =
     (let s1 = stopPolling s;
          s2 = s1\<lparr>polling := True\<rparr>;
          s3 = load_begin s2;
          (h, s4) = setInterval pollInterval s3
      in s4\<lparr>timerRef := Some h\<rparr>)"

text \<open>
  What can happen to a mounted hook: the two callbacks, a tick of a running timer (which
  starts a \<^verbatim>\<open>load\<close>), the settlement of a \<^verbatim>\<open>load\<close>, a \<^verbatim>\<open>reload\<close>, and the cleanup on
  unmount.
\<close>

datatype event =
    StartPolling
  | StopPolling
  | Tick
  | Settled "thrown + SheetState"
  | Reload
  | Unmount

definition step :: "nat \<Rightarrow> event \<Rightarrow> hook \<Rightarrow> hook" where
  "step pollInterval e s =
     (case e of
        StartPolling \<Rightarrow> startPolling pollInterval s
      | StopPolling \<Rightarrow> stopPolling s
      | Tick \<Rightarrow> if intervals s = [] then s else load_begin s
      | Settled outcome \<Rightarrow> load_end outcome s
      | Reload \<Rightarrow> load_begin s
      | Unmount \<Rightarrow> stopPolling s)"

definition run :: "nat \<Rightarrow> event list \<Rightarrow> hook \<Rightarrow> hook" where
  "run pollInterval es s = fold (step pollInterval) es s"

text \<open>The timer of the hook is the one interval timer that runs, or none runs.\<close>

definition timers_owned :: "hook \<Rightarrow> bool" where
  "timers_owned s =
     (case timerRef s of
        None \<Rightarrow> intervals s = []
      | Some h \<Rightarrow> 0 < h \<and> h \<le> last_handle s \<and> map fst (intervals s) = [h])"

text \<open>
  The notion the specification uses for the cell of a write, which the code has no
  counterpart of: a cell reference in A1 notation, one or more letters followed by one
  or more digits.
\<close>

definition isLetter :: "char \<Rightarrow> bool" where
  "isLetter c = (let n = (of_char c :: nat) in (65 \<le> n \<and> n \<le> 90) \<or> (97 \<le> n \<and> n \<le> 122))"

definition isCellRef :: "string \<Rightarrow> bool" where
  "isCellRef s =
     (takeWhile isLetter s \<noteq> [] \<and> dropWhile isLetter s \<noteq> [] \<and>
      list_all isDigit (dropWhile isLetter s))"

text \<open>Inputs used as examples below.\<close>

definition spec_rows :: "jsval list list" where
  "spec_rows =
     [[JStr ''RUN'', JStr ''t1'', JStr ''http://x/img.png'', JStr [], JStr []],
      [JStr ''RUN'', JStr ''t1'', JStr ''http://y/img2.png'', JStr [], JStr ''line2'']]"

definition numeric_rows :: "jsval list list" where
  "numeric_rows = [[JStr ''RUN'', JStr ''t1'', JNum 7, JNum 123]]"

definition formula_rows :: "jsval list list" where
  "formula_rows =
     [[JStr ''RUN'', JStr ''t1'', JStr ''http://x/first.png''],
      [JStr ''RUN'', JStr ''t1'',
       JStr ('' =image( '' @ [dq] @ ''http://x/img.png'' @ [dq] @ '', 4, 60, 60) '')]]"

definition quoted_formula :: string where
  "quoted_formula = ''=IMAGE('' @ [dq] @ '' http://x/img.png'' @ [dq] @ '')''"

definition clean_formula :: string where
  "clean_formula = '' =image( '' @ [dq] @ ''http://x/img.png'' @ [dq] @ '', 4, 60, 60) ''"

definition bad_cell_body :: jsval where
  "bad_cell_body =
     JObj [(''action'', JStr ''update-cell''), (''cell'', JStr ''not a cell''),
           (''value'', JStr ''x'')]"

definition no_cell_body :: jsval where
  "no_cell_body = JObj [(''action'', JStr ''update-cell''), (''value'', JStr ''x'')]"

definition test_server :: server where
  "test_server =
     \<lparr>SHEET_ID = Some ''sheet-1'', SHEET_NAME = ''Login_NhutPT'', getSheetsClient = None,
      values_get = (\<lambda>r. Inr None), values_update = (\<lambda>r v. None)\<rparr>"

definition null_response :: response where
  "null_response = \<lparr>code = 200, statusText = ''OK'', parsed = Some JNull\<rparr>"

definition test_client :: client where
  "test_client =
     \<lparr>VITE_SHEET_WEBAPP_URL = Some ''http://localhost:4000/sheet'',
      fetch = (\<lambda>req. Inr \<lparr>code = 200, statusText = ''OK'',
                              parsed = Some (JObj [(''success'', JBool True)])\<rparr>)\<rparr>"

definition null_client :: client where
  "null_client =
     \<lparr>VITE_SHEET_WEBAPP_URL = Some ''http://localhost:4000/sheet'',
      fetch = (\<lambda>req. Inr null_response)\<rparr>"

definition run_state :: SheetState where
  "run_state = toSheetState (JObj [(''A2'', JStr ''run ''), (''logs'', JArr [])])"

definition done_state :: SheetState where
  "done_state = toSheetState (JObj [(''A2'', JStr ''DONE''), (''logs'', JArr [])])"

definition polling_hook :: hook where
  "polling_hook = startPolling (pollIntervalOf None) mounted"

definition legacy_raw :: jsval where
  "legacy_raw =
     JObj [(''logs'', JArr [JStr ''a'', JObj [(''row'', JNum 2), (''text'', JStr ''b'')],
                            JStr ''  '']),
           (''log'', JStr (''x'' @ [CR, LF, LF] @ '' y '')),
           (''E5'', JStr ''five''), (''e5'', JStr ''FIVE''), (''E3'', JNum 3)]"

section \<open>Properties of the proxy\<close>

subsection \<open>Trimming and the image formula\<close>

lemma dropWhile_rev_keep_head:
  assumes "\<not> P a"
  shows "dropWhile P (rev (dropWhile P (rev (a # ys)))) = rev (dropWhile P (rev (a # ys)))"
proof -
  have "\<exists>zs. dropWhile P (rev (a # ys)) = zs @ [a]"
    using assms by (cases "\<forall>x\<in>set ys. P x") (simp_all add: dropWhile_append)
  then obtain zs where "dropWhile P (rev (a # ys)) = zs @ [a]" ..
  then show ?thesis using assms by simp
qed

lemma dropWhile_rev_dropWhile:
  "dropWhile P (rev (dropWhile P (rev (dropWhile P s)))) =
   rev (dropWhile P (rev (dropWhile P s)))"
proof (cases "dropWhile P s")
  case Nil
  show ?thesis unfolding Nil by simp
next
  case (Cons a ys)
  then have "\<not> P a" by (metis hd_dropWhile list.sel(1) list.distinct(1))
  then show ?thesis unfolding Cons by (rule dropWhile_rev_keep_head)
qed

lemma trim_idem: "trim (trim s) = trim s"
  unfolding trim_def trimStart_def trimEnd_def
  by (simp add: dropWhile_rev_dropWhile)

lemma dq_in_trim: "dq \<in> set (trim s) \<Longrightarrow> dq \<in> set s"
  unfolding trim_def trimEnd_def trimStart_def
  by (metis set_dropWhileD set_rev)

lemma match_no_dq: "imageFormulaMatch t = Some u \<Longrightarrow> dq \<notin> set u"
  unfolding imageFormulaMatch_def
  by (auto simp: Let_def split: if_splits list.splits dest: set_takeWhileD)

lemma match_has_dq:
  assumes "imageFormulaMatch t = Some u"
  shows "dq \<in> set t"
proof -
  from assms obtain r where "dropWhile isWhiteSpace (drop 7 t) = dq # r"
    unfolding imageFormulaMatch_def
    by (auto simp: Let_def split: if_splits list.splits)
  then have "dq \<in> set (dropWhile isWhiteSpace (drop 7 t))" by simp
  then have "dq \<in> set (drop 7 t)" by (rule set_dropWhileD)
  then show ?thesis by (rule in_set_dropD)
qed

lemma dq_not_space: "\<not> isWhiteSpace dq"
  by (simp add: isWhiteSpace_def dq_def)

lemma tailMatch_iff:
  "tailMatch r \<longleftrightarrow>
     (r = '')'' \<or> (\<exists>mid. r = '','' @ mid @ '')'' \<and> list_all (\<lambda>c. \<not> isLineTerminator c) mid))"
proof
  assume "tailMatch r"
  then consider "r = '')''" |
    "2 \<le> length r" "hd r = CHR '',''" "last r = CHR '')''"
    "list_all (\<lambda>c. \<not> isLineTerminator c) (butlast (tl r))"
    unfolding tailMatch_def by blast
  then show "r = '')'' \<or> (\<exists>mid. r = '','' @ mid @ '')'' \<and> list_all (\<lambda>c. \<not> isLineTerminator c) mid)"
  proof cases
    case 1
    then show ?thesis by simp
  next
    case 2
    from 2(1) obtain a r' where r: "r = a # r'" and r': "r' \<noteq> []"
      by (cases r) (auto simp: Suc_le_eq)
    with 2(2,3) have "a = CHR '',''" and "last r' = CHR '')''" by auto
    with r r' have "r = '','' @ butlast r' @ '')''"
      by (metis append_Cons append_Nil append_butlast_last_id)
    moreover have "list_all (\<lambda>c. \<not> isLineTerminator c) (butlast r')"
      using 2(4) r by simp
    ultimately show ?thesis by blast
  qed
next
  assume "r = '')'' \<or> (\<exists>mid. r = '','' @ mid @ '')'' \<and> list_all (\<lambda>c. \<not> isLineTerminator c) mid)"
  then show "tailMatch r"
    unfolding tailMatch_def by (auto simp: butlast_append)
qed

lemma imageFormulaMatch_shape: "imageFormulaMatch t = Some u \<longleftrightarrow> formulaShape t u"
proof
  assume m: "imageFormulaMatch t = Some u"
  then have up: "toUpperCase (take 7 t) = ''=IMAGE(''"
    unfolding imageFormulaMatch_def by (simp split: if_splits)
  then have "length (toUpperCase (take 7 t)) = 7" by simp
  then have len: "length (take 7 t) = 7"
    unfolding toUpperCase_def by (simp only: length_map)
  from m up obtain r where r: "dropWhile isWhiteSpace (drop 7 t) = dq # r"
    and u: "u = takeWhile (\<lambda>c. c \<noteq> dq) r" and ne: "u \<noteq> []"
    and rest: "dropWhile (\<lambda>c. c \<noteq> dq) r \<noteq> []" and tm: "tailMatch (tl (dropWhile (\<lambda>c. c \<noteq> dq) r))"
    unfolding imageFormulaMatch_def
    by (auto simp: Let_def split: if_splits list.splits)
  have hd: "hd (dropWhile (\<lambda>c. c \<noteq> dq) r) = dq"
    using hd_dropWhile [OF rest] by simp
  have "t = take 7 t @ drop 7 t" by simp
  also have "drop 7 t = takeWhile isWhiteSpace (drop 7 t) @ dropWhile isWhiteSpace (drop 7 t)" by simp
  also have "dropWhile isWhiteSpace (drop 7 t) = dq # r" by (rule r)
  also have "r = takeWhile (\<lambda>c. c \<noteq> dq) r @ dropWhile (\<lambda>c. c \<noteq> dq) r" by simp
  also have "dropWhile (\<lambda>c. c \<noteq> dq) r = dq # tl (dropWhile (\<lambda>c. c \<noteq> dq) r)"
    using rest hd by (metis list.collapse)
  finally have "t = take 7 t @ takeWhile isWhiteSpace (drop 7 t) @ [dq] @ u @ [dq] @
      tl (dropWhile (\<lambda>c. c \<noteq> dq) r)"
    using u by simp
  moreover have "list_all isWhiteSpace (takeWhile isWhiteSpace (drop 7 t))"
    by (simp add: list_all_iff) (metis set_takeWhileD)
  moreover have "dq \<notin> set u" using u by (auto dest: set_takeWhileD)
  ultimately show "formulaShape t u"
    unfolding formulaShape_def using len up ne tm [unfolded tailMatch_iff] by blast
next
  assume "formulaShape t u"
  then obtain p ws tail where t: "t = p @ ws @ [dq] @ u @ [dq] @ tail"
    and p: "length p = 7" "toUpperCase p = ''=IMAGE(''"
    and ws: "list_all isWhiteSpace ws" and u: "u \<noteq> []" "dq \<notin> set u"
    and tail: "tailMatch tail"
    unfolding formulaShape_def tailMatch_iff by blast
  have a: "take 7 t = p" "drop 7 t = ws @ [dq] @ u @ [dq] @ tail" using t p by simp_all
  have b: "dropWhile isWhiteSpace (ws @ [dq] @ u @ [dq] @ tail) = dq # u @ [dq] @ tail"
    using ws dq_not_space by (simp add: dropWhile_append list_all_iff)
  have c: "takeWhile (\<lambda>c. c \<noteq> dq) (u @ [dq] @ tail) = u"
    "dropWhile (\<lambda>c. c \<noteq> dq) (u @ [dq] @ tail) = dq # tail"
    using u by (simp_all add: takeWhile_append dropWhile_append)
  show "imageFormulaMatch t = Some u"
    unfolding imageFormulaMatch_def a b using p u tail c by (simp add: Let_def)
qed

lemma formulaShape_unique: "formulaShape t u \<Longrightarrow> formulaShape t v \<Longrightarrow> u = v"
  by (metis imageFormulaMatch_shape option.inject)

lemma unwrapImage_twice: "unwrapImage (unwrapImage s) = trim (unwrapImage s)"
proof (cases "imageFormulaMatch (trim s)")
  case None
  then show ?thesis by (simp add: unwrapImage_def trim_idem)
next
  case (Some u)
  then have "dq \<notin> set u" by (rule match_no_dq)
  then have "dq \<notin> set (trim u)" using dq_in_trim by blast
  then have "imageFormulaMatch (trim u) = None"
    using match_has_dq by (cases "imageFormulaMatch (trim u)") auto
  then show ?thesis using Some by (simp add: unwrapImage_def)
qed

lemma normalizeImageValue_JStr: "normalizeImageValue (JStr s) = JStr (unwrapImage s)"
  by (simp add: normalizeImageValue_def)

subsection \<open>The log entries\<close>

lemma logEntries_strict:
  "sorted_wrt (\<lambda>e f. row e < row f) (map logEntry (enumerate 0 rows))"
proof -
  have "sorted_wrt (<) (map fst (enumerate 0 rows))" by simp
  then have "sorted_wrt (\<lambda>p q. fst p < fst q) (enumerate 0 rows)"
    by (simp only: sorted_wrt_map)
  then have "sorted_wrt (\<lambda>p q. row (logEntry p) < row (logEntry q)) (enumerate 0 rows)"
    by (rule sorted_wrt_mono_rel [rotated]) (simp add: logEntry_def)
  then show ?thesis by (simp only: sorted_wrt_map)
qed

lemma logs_strict: "sorted_wrt (<) (map row (logs (getStateData rows)))"
proof -
  have "sorted_wrt (\<lambda>e f. row e < row f) (filter keepEntry (map logEntry (enumerate 0 rows)))"
    by (rule sorted_wrt_filter) (rule logEntries_strict)
  then show ?thesis by (simp add: getStateData_def sorted_wrt_map)
qed

lemma logs_source:
  assumes "e \<in> set (logs (getStateData rows))"
  shows "\<exists>i<length rows. row e = int i + 2 \<and> text' e = logText (rows ! i)"
proof -
  from assms obtain p where p: "p \<in> set (enumerate 0 rows)" and e: "e = logEntry p"
    by (auto simp: getStateData_def)
  from p have "fst p < length rows" and "snd p = rows ! fst p"
    by (simp_all add: in_set_enumerate_eq)
  with e show ?thesis by (auto simp: logEntry_def)
qed

lemma logs_nonblank:
  "e \<in> set (logs (getStateData rows)) \<Longrightarrow> text' e \<noteq> [] \<and> trim (text' e) \<noteq> []"
  by (simp add: getStateData_def keepEntry_def)

lemma imageValue_cases:
  "imageValue rows =
     (if 1 < length rows \<and> 3 \<le> length (rows ! 1) then rows ! 1 ! 2
      else if rows \<noteq> [] \<and> 3 \<le> length (hd rows) then hd rows ! 2
      else JUndefined)"
  by (cases rows)
     (auto simp: imageValue_def imageRow_def firstRow_def opt_index_def at_index_def)

lemma spec_rows_logs: "logs (getStateData spec_rows) = [\<lparr>row = 3, text' = ''line2''\<rparr>]"
  by code_simp

lemma spec_rows_cells:
  "opt_index (firstRow spec_rows) 0 = JStr ''RUN''"
  "opt_index (firstRow spec_rows) 1 = JStr ''t1''"
  "opt_index (firstRow spec_rows) 2 = JStr ''http://x/img.png''"
  "opt_index (firstRow spec_rows) 3 = JStr []"
  "opt_index (firstRow spec_rows) 4 = JStr []"
  "unwrapImage ''http://x/img.png'' = ''http://x/img.png''"
  by code_simp+

lemma no_rows_cells: "opt_index (firstRow []) i = JUndefined"
  by (simp add: opt_index_def firstRow_def)

lemma plain_no_match: "imageFormulaMatch (trim ''  http://x/img.png '') = None"
  by code_simp

lemma clean_match:
  "imageFormulaMatch (trim clean_formula) = Some ''http://x/img.png'' \<and>
   trim ''http://x/img.png'' = ''http://x/img.png''"
  by code_simp

lemma formula_rows_cell:
  "(if 1 < length formula_rows \<and> 3 \<le> length (formula_rows ! 1) then formula_rows ! 1 ! 2
    else if formula_rows \<noteq> [] \<and> 3 \<le> length (hd formula_rows) then hd formula_rows ! 2
    else JUndefined) = JStr clean_formula"
  by code_simp

lemma spec_rows_cell:
  "(if 1 < length spec_rows \<and> 3 \<le> length (spec_rows ! 1) then spec_rows ! 1 ! 2
    else if spec_rows \<noteq> [] \<and> 3 \<le> length (hd spec_rows) then hd spec_rows ! 2
    else JUndefined) = JStr ''http://y/img2.png''"
  by code_simp

lemma numeric_rows_cell:
  "(if 1 < length numeric_rows \<and> 3 \<le> length (numeric_rows ! 1) then numeric_rows ! 1 ! 2
    else if numeric_rows \<noteq> [] \<and> 3 \<le> length (hd numeric_rows) then hd numeric_rows ! 2
    else JUndefined) = JNum 7"
  by code_simp

lemma clean_formula_shape: "formulaShape (trim clean_formula) ''http://x/img.png''"
  using clean_match by (simp add: imageFormulaMatch_shape)

lemma plain_url_no_shape:
  "\<forall>u. \<not> formulaShape (trim ''http://y/img2.png'') u"
    "trim ''http://y/img2.png'' = ''http://y/img2.png''"
proof -
  have "imageFormulaMatch (trim ''http://y/img2.png'') = None" by code_simp
  then show "\<forall>u. \<not> formulaShape (trim ''http://y/img2.png'') u"
    by (simp add: imageFormulaMatch_shape [symmetric])
  show "trim ''http://y/img2.png'' = ''http://y/img2.png''" by code_simp
qed

section \<open>Claims about the proxy\<close>

text \<open>
  Claim C2. For every list of raw rows, the log entries of the get-state response are in
  strictly ascending order of row number, every entry carries the number of a source
  row, that row's 0-based index plus 2, with the text made of the fifth cell of that
  row, and no entry has an empty or blank text.
\<close>

theorem C2_logs_sorted_numbered_nonblank:
  "sorted_wrt (<) (map row (logs (getStateData rows))) \<and>
   (\<forall>e \<in> set (logs (getStateData rows)).
      (\<exists>i<length rows. row e = int i + 2 \<and> text' e = logText (rows ! i)) \<and>
      text' e \<noteq> [] \<and> trim (text' e) \<noteq> [])"
  using logs_strict logs_source logs_nonblank by blast

theorem C2_witness:
  "logs (getStateData spec_rows) = [\<lparr>row = 3, text' = ''line2''\<rparr>] \<and>
   sorted_wrt (<) (map row (logs (getStateData spec_rows))) \<and>
   (\<exists>i<length spec_rows. (3::int) = int i + 2 \<and> ''line2'' = logText (spec_rows ! i)) \<and>
   trim ''line2'' \<noteq> []"
proof -
  have "sorted_wrt (<) (map row [\<lparr>row = 3, text' = ''line2''\<rparr>]) \<and>
   (\<forall>e \<in> set [\<lparr>row = 3, text' = ''line2''\<rparr>].
      (\<exists>i<length spec_rows. row e = int i + 2 \<and> text' e = logText (spec_rows ! i)) \<and>
      text' e \<noteq> [] \<and> trim (text' e) \<noteq> [])"
    using C2_logs_sorted_numbered_nonblank [of spec_rows] unfolding spec_rows_logs .
  then show ?thesis unfolding spec_rows_logs by auto
qed

text \<open>
  Claim C3. For every list of raw rows the fields \<open>imageUrl\<close> and \<open>C3\<close> of the response
  are the same value, made of one cell: the third cell of the second row when there is a
  second row and it has a third cell, otherwise the third cell of the first row, and no
  cell when that does not exist either. The value is the empty string when there is no
  cell (or the cell is \<^verbatim>\<open>null\<close>); when the cell is a string that, trimmed, is an image
  formula around a quoted URL, it is that URL; when it is any other string, it is the
  string trimmed; a cell that is not a string is the value as it is.
\<close>

theorem C3_imageUrl_prefers_second_row:
  "C3 (getStateData rows) = imageUrl (getStateData rows) \<and>
   (\<forall>v. v = (if 1 < length rows \<and> 3 \<le> length (rows ! 1) then rows ! 1 ! 2
            else if rows \<noteq> [] \<and> 3 \<le> length (hd rows) then hd rows ! 2
            else JUndefined) \<longrightarrow>
      (v = JUndefined \<or> v = JNull \<longrightarrow> imageUrl (getStateData rows) = JStr []) \<and>
      (\<forall>s u. v = JStr s \<and> formulaShape (trim s) u \<longrightarrow>
         imageUrl (getStateData rows) = JStr u) \<and>
      (\<forall>s. v = JStr s \<and> (\<forall>u. \<not> formulaShape (trim s) u) \<longrightarrow>
         imageUrl (getStateData rows) = JStr (trim s)) \<and>
      (\<not> isString v \<and> v \<noteq> JUndefined \<and> v \<noteq> JNull \<longrightarrow>
         imageUrl (getStateData rows) = v))"
proof -
  have a: "imageUrl (getStateData rows) = normalizeImageValue (imageValue rows)"
    and b: "C3 (getStateData rows) = imageUrl (getStateData rows)"
    by (simp_all add: getStateData_def)
  have c: "normalizeImageValue (JStr s) = JStr u" if "formulaShape (trim s) u" for s u
    using that by (simp add: normalizeImageValue_JStr unwrapImage_def
        imageFormulaMatch_shape [symmetric])
  have d: "normalizeImageValue (JStr s) = JStr (trim s)"
    if "\<forall>u. \<not> formulaShape (trim s) u" for s
  proof -
    from that have "imageFormulaMatch (trim s) = None"
      by (cases "imageFormulaMatch (trim s)") (simp_all add: imageFormulaMatch_shape)
    then show ?thesis by (simp add: normalizeImageValue_JStr unwrapImage_def)
  qed
  have e: "normalizeImageValue v = v" if "\<not> isString v" "v \<noteq> JUndefined" "v \<noteq> JNull" for v
    using that by (cases v) (simp_all add: normalizeImageValue_def isString_def)
  have f: "normalizeImageValue v = JStr []" if "v = JUndefined \<or> v = JNull" for v
    using that by (auto simp: normalizeImageValue_def)
  show ?thesis
    unfolding a imageValue_cases [symmetric] using b c d e f by (simp add: a)
qed

theorem C3_witness:
  "formulaShape (trim clean_formula) ''http://x/img.png'' \<and>
   imageUrl (getStateData formula_rows) = JStr ''http://x/img.png'' \<and>
   C3 (getStateData formula_rows) = JStr ''http://x/img.png'' \<and>
   (\<forall>u. \<not> formulaShape (trim ''http://y/img2.png'') u) \<and>
   imageUrl (getStateData spec_rows) = JStr ''http://y/img2.png'' \<and>
   C3 (getStateData spec_rows) = JStr ''http://y/img2.png'' \<and>
   imageUrl (getStateData []) = JStr [] \<and>
   \<not> isString (JNum 7) \<and> imageUrl (getStateData numeric_rows) = JNum 7"
proof -
  have n: "\<not> isString (JNum 7)" by (simp add: isString_def)
  show ?thesis
    using C3_imageUrl_prefers_second_row [of formula_rows]
      C3_imageUrl_prefers_second_row [of spec_rows]
      C3_imageUrl_prefers_second_row [of "[]"]
      C3_imageUrl_prefers_second_row [of numeric_rows]
    unfolding formula_rows_cell spec_rows_cell numeric_rows_cell
    using clean_formula_shape plain_url_no_shape n
    by simp
qed

text \<open>
  Claim C4, as stated: unwrapping an image formula twice gives the same as unwrapping it
  once, for every string. It fails on a formula whose quoted URL starts with a space:
  the first application returns the URL as it stands between the quotes, the second
  trims it.
\<close>

theorem C4_counterexample:
  "normalizeImageValue (normalizeImageValue (JStr quoted_formula)) \<noteq>
   normalizeImageValue (JStr quoted_formula)"
  by code_simp

text \<open>
  Claim C4, amended. Unwrapping twice gives the once-unwrapped value with the white space
  around it trimmed. So the second application changes nothing on every string that is
  not an image formula, and on every image formula whose quoted URL has no white space
  at either end.
\<close>

theorem C4_twice_is_once_trimmed:
  "normalizeImageValue (normalizeImageValue (JStr s)) = JStr (trim (unwrapImage s)) \<and>
   (imageFormulaMatch (trim s) = None \<longrightarrow>
      normalizeImageValue (normalizeImageValue (JStr s)) = normalizeImageValue (JStr s)) \<and>
   (\<forall>u. imageFormulaMatch (trim s) = Some u \<and> trim u = u \<longrightarrow>
      normalizeImageValue (normalizeImageValue (JStr s)) = normalizeImageValue (JStr s))"
  by (auto simp: normalizeImageValue_JStr unwrapImage_twice)
     (simp_all add: unwrapImage_def trim_idem)

theorem C4_witness:
  "imageFormulaMatch (trim ''  http://x/img.png '') = None \<and>
   normalizeImageValue (normalizeImageValue (JStr ''  http://x/img.png '')) =
     normalizeImageValue (JStr ''  http://x/img.png '') \<and>
   imageFormulaMatch (trim clean_formula) = Some ''http://x/img.png'' \<and>
   trim ''http://x/img.png'' = ''http://x/img.png'' \<and>
   normalizeImageValue (normalizeImageValue (JStr clean_formula)) =
     normalizeImageValue (JStr clean_formula)"
  using C4_twice_is_once_trimmed [of "''  http://x/img.png ''"]
        C4_twice_is_once_trimmed [of clean_formula] plain_no_match clean_match
  by blast

text \<open>
  Claim C6, as stated: the fields \<open>A2\<close> to \<open>E2\<close> are strings for every list of raw rows,
  rows with numbers in their cells included. A first row whose third and fourth cells are
  the numbers 7 and 123 gives the field \<open>C2\<close> the number 7 (\<^verbatim>\<open>normalizeImageValue\<close>
  returns what is not a string as it is) and the field \<open>D2\<close> the number 123.
\<close>

theorem C6_counterexample:
  "C2 (getStateData numeric_rows) = JNum 7 \<and> \<not> isString (C2 (getStateData numeric_rows)) \<and>
   D2 (getStateData numeric_rows) = JNum 123 \<and> \<not> isString (D2 (getStateData numeric_rows))"
  by code_simp

text \<open>
  Claim C6, amended. When a cell of the first row is a string, the field \<open>A2\<close>, \<open>B2\<close>,
  \<open>D2\<close> or \<open>E2\<close> of its column is that string and the field \<open>C2\<close> is the unwrapped
  string of the third cell; when the cell is absent (or \<^verbatim>\<open>null\<close>), the field is the
  empty string. So each of the five fields is a string whenever its cell is a string or
  absent.
\<close>

theorem C6_string_or_absent_cells:
  "(\<forall>s. opt_index (firstRow rows) 0 = JStr s \<longrightarrow> A2 (getStateData rows) = JStr s) \<and>
   (opt_index (firstRow rows) 0 = JUndefined \<or> opt_index (firstRow rows) 0 = JNull \<longrightarrow>
      A2 (getStateData rows) = JStr []) \<and>
   (\<forall>s. opt_index (firstRow rows) 1 = JStr s \<longrightarrow> B2 (getStateData rows) = JStr s) \<and>
   (opt_index (firstRow rows) 1 = JUndefined \<or> opt_index (firstRow rows) 1 = JNull \<longrightarrow>
      B2 (getStateData rows) = JStr []) \<and>
   (\<forall>s. opt_index (firstRow rows) 2 = JStr s \<longrightarrow>
      C2 (getStateData rows) = JStr (unwrapImage s)) \<and>
   (opt_index (firstRow rows) 2 = JUndefined \<or> opt_index (firstRow rows) 2 = JNull \<longrightarrow>
      C2 (getStateData rows) = JStr []) \<and>
   (\<forall>s. opt_index (firstRow rows) 3 = JStr s \<longrightarrow> D2 (getStateData rows) = JStr s) \<and>
   (opt_index (firstRow rows) 3 = JUndefined \<or> opt_index (firstRow rows) 3 = JNull \<longrightarrow>
      D2 (getStateData rows) = JStr []) \<and>
   (\<forall>s. opt_index (firstRow rows) 4 = JStr s \<longrightarrow> E2 (getStateData rows) = JStr s) \<and>
   (opt_index (firstRow rows) 4 = JUndefined \<or> opt_index (firstRow rows) 4 = JNull \<longrightarrow>
      E2 (getStateData rows) = JStr [])"
  by (auto simp: getStateData_def nullish_def normalizeImageValue_def)

theorem C6_witness:
  "A2 (getStateData spec_rows) = JStr ''RUN'' \<and> B2 (getStateData spec_rows) = JStr ''t1'' \<and>
   C2 (getStateData spec_rows) = JStr ''http://x/img.png'' \<and>
   D2 (getStateData spec_rows) = JStr [] \<and> E2 (getStateData spec_rows) = JStr [] \<and>
   A2 (getStateData []) = JStr [] \<and> B2 (getStateData []) = JStr [] \<and>
   C2 (getStateData []) = JStr [] \<and> D2 (getStateData []) = JStr [] \<and>
   E2 (getStateData []) = JStr []"
  using C6_string_or_absent_cells [of spec_rows] C6_string_or_absent_cells [of "[]"]
    spec_rows_cells no_rows_cells
  by simp

text \<open>
  Claim C7, as stated: a write whose cell reference is not syntactically valid is
  rejected with a 4xx response before any remote call. The handler tests only that the
  cell is a string: the string \<^verbatim>\<open>not a cell\<close> goes to the spreadsheet service, and when
  the service accepts it the response is 200.
\<close>

theorem C7_counterexample:
  "\<not> isCellRef ''not a cell'' \<and>
   handleUpdateCell test_server bad_cell_body =
     (\<lparr>status = 200, body = Succeeded\<rparr>,
      [Authorize, ValuesUpdate ''Login_NhutPT!not a cell'' (JStr ''x'')])"
  by code_simp

text \<open>
  Claim C7, amended. With a sheet id configured, a write whose \<^verbatim>\<open>cell\<close> field is not a
  string (missing, or of another type) is answered with status 400 and
  \<^verbatim>\<open>success: false\<close> before any remote call; a write whose \<^verbatim>\<open>cell\<close> is a string is
  handed to the spreadsheet service as it is, in the range made of the sheet name and
  the cell.
\<close>

theorem C7_rejects_only_non_string_cell:
  assumes "\<not> missingSheetId srv"
  shows "(\<not> isString (getField (if falsy b then JObj [] else b) ''cell'') \<longrightarrow>
           handleUpdateCell srv b = (\<lparr>status = 400, body = Failed missingCellMessage\<rparr>, [])) \<and>
         (\<forall>c. getField (if falsy b then JObj [] else b) ''cell'' = JStr c \<longrightarrow>
           snd (handleUpdateCell srv b) =
             Authorize #
             (if getSheetsClient srv = None
              then [ValuesUpdate (SHEET_NAME srv @ ''!'' @ c)
                      (nullish (getField (if falsy b then JObj [] else b) ''value'') (JStr []))]
              else []))"
  using assms
  by (auto simp: handleUpdateCell_def Let_def isString_def split: jsval.splits option.splits)

theorem C7_witness:
  "\<not> missingSheetId test_server \<and>
   \<not> isString (getField (if falsy no_cell_body then JObj [] else no_cell_body) ''cell'') \<and>
   handleUpdateCell test_server no_cell_body =
     (\<lparr>status = 400, body = Failed missingCellMessage\<rparr>, []) \<and>
   getField (if falsy bad_cell_body then JObj [] else bad_cell_body) ''cell'' =
     JStr ''not a cell'' \<and>
   snd (handleUpdateCell test_server bad_cell_body) =
     [Authorize, ValuesUpdate ''Login_NhutPT!not a cell'' (JStr ''x'')]"
proof -
  have a: "\<not> missingSheetId test_server" by code_simp
  have b: "\<not> isString (getField (if falsy no_cell_body then JObj [] else no_cell_body) ''cell'')"
    by code_simp
  have c: "getField (if falsy bad_cell_body then JObj [] else bad_cell_body) ''cell'' =
      JStr ''not a cell''"
    by code_simp
  have d: "getSheetsClient test_server = None" "SHEET_NAME test_server = ''Login_NhutPT''"
    "nullish (getField (if falsy bad_cell_body then JObj [] else bad_cell_body) ''value'')
       (JStr []) = JStr ''x''"
    by code_simp+
  show ?thesis
    using C7_rejects_only_non_string_cell [OF a, of no_cell_body]
          C7_rejects_only_non_string_cell [OF a, of bad_cell_body] a b c d
    by simp
qed

section \<open>Properties of the client\<close>

subsection \<open>\<^verbatim>\<open>collectLogs\<close> as a fold over its calls of \<^verbatim>\<open>assign\<close>\<close>

lemma fold_option:
  "fold (\<lambda>p acc. case f p of Some c \<Rightarrow> g c acc | None \<Rightarrow> acc) xs es =
   fold g (List.map_filter f xs) es"
  by (induction xs arbitrary: es) (simp_all add: map_filter_simps split: option.splits)

lemma fromArray_calls: "fromArray arr es = fold (\<lambda>c. assign (fst c) (snd c)) (arrayCalls arr) es"
proof -
  have "(\<lambda>p acc. case itemCall p of Some (r, v) \<Rightarrow> assign r v acc | None \<Rightarrow> acc) =
        (\<lambda>p acc. case itemCall p of Some c \<Rightarrow> assign (fst c) (snd c) acc | None \<Rightarrow> acc)"
    by (auto simp: fun_eq_iff split: option.splits)
  then show ?thesis unfolding fromArray_def arrayCalls_def by (simp add: fold_option)
qed

lemma fromLines_calls: "fromLines ls es = fold (\<lambda>c. assign (fst c) (snd c)) (lineCalls ls) es"
  unfolding fromLines_def lineCalls_def by (simp add: fold_map o_def)

lemma fromKeys_calls: "fromKeys kvs es = fold (\<lambda>c. assign (fst c) (snd c)) (keyCalls kvs) es"
  unfolding fromKeys_def keyCalls_def
  by (induction kvs arbitrary: es) (simp_all add: map_filter_simps split: option.splits)

lemma collectEntries_calls:
  "collectEntries raw = fold (\<lambda>c. assign (fst c) (snd c)) (assignCalls raw) []"
  unfolding collectEntries_def assignCalls_def Let_def
  by (simp add: fromArray_calls fromLines_calls fromKeys_calls split: jsval.splits)

lemma assign_stored:
  "assign (fst c) (snd c) es = (case stored c of Some p \<Rightarrow> AList.update (fst p) (snd p) es | None \<Rightarrow> es)"
  by (simp add: assign_def stored_def split: jsval.splits)

lemma upd_add: "m(k \<mapsto> v) ++ M = m ++ (Map.empty(k \<mapsto> v) ++ M)"
  by (auto simp: fun_eq_iff map_add_def split: option.splits)

lemma map_of_fold_assign:
  "map_of (fold (\<lambda>c. assign (fst c) (snd c)) calls es) =
   map_of es ++ map_of (rev (List.map_filter stored calls))"
proof (induction calls arbitrary: es)
  case Nil
  show ?case by (simp add: map_filter_simps)
next
  case (Cons c cs)
  show ?case
  proof (cases "stored c")
    case None
    then show ?thesis using Cons [of es] by (simp add: assign_stored map_filter_simps)
  next
    case (Some p)
    have "map_of (fold (\<lambda>c. assign (fst c) (snd c)) (c # cs) es) =
          map_of (fold (\<lambda>c. assign (fst c) (snd c)) cs (AList.update (fst p) (snd p) es))"
      using Some by (simp add: assign_stored)
    also have "\<dots> = (map_of es)(fst p \<mapsto> snd p) ++ map_of (rev (List.map_filter stored cs))"
      by (simp only: Cons update_conv')
    also have "\<dots> = map_of es ++ (Map.empty(fst p \<mapsto> snd p) ++ map_of (rev (List.map_filter stored cs)))"
      by (rule upd_add)
    also have "Map.empty(fst p \<mapsto> snd p) ++ map_of (rev (List.map_filter stored cs)) =
               map_of (rev (List.map_filter stored (c # cs)))"
      using Some by (simp add: map_filter_simps)
    finally show ?thesis .
  qed
qed

lemma distinct_fold_assign:
  "distinct (map fst es) \<Longrightarrow> distinct (map fst (fold (\<lambda>c. assign (fst c) (snd c)) calls es))"
  by (induction calls arbitrary: es)
     (simp_all add: assign_stored distinct_update split: option.splits)

lemma collectEntries_distinct: "distinct (map fst (collectEntries raw))"
  by (simp add: collectEntries_calls distinct_fold_assign)

lemma collectEntries_map: "map_of (collectEntries raw) = lastStored (assignCalls raw)"
  by (simp add: collectEntries_calls map_of_fold_assign lastStored_def fun_eq_iff)

lemma lastStored_nonblank:
  assumes "lastStored calls r = Some t"
  shows "trim t \<noteq> []"
proof -
  from assms have "(r, t) \<in> set (List.map_filter stored calls)"
    unfolding lastStored_def by (auto dest: map_of_SomeD)
  then obtain c where "stored c = Some (r, t)"
    by (auto simp: map_filter_def)
  then show ?thesis by (auto simp: stored_def split: jsval.splits if_splits)
qed

lemma trim_Nil: "trim [] = []"
  by (simp add: trim_def trimStart_def trimEnd_def)

lemma rows_of_collectLogs: "map row (collectLogs raw) = map fst (sort_key fst (collectEntries raw))"
  by (simp add: collectLogs_def o_def)

lemma pairs_of_collectLogs:
  "map (\<lambda>e. (row e, text' e)) (collectLogs raw) = sort_key fst (collectEntries raw)"
  by (simp add: collectLogs_def o_def)

lemma sorted_entries_distinct: "distinct (map fst (sort_key fst (collectEntries raw)))"
  using collectEntries_distinct [of raw]
  by (simp add: distinct_map)

lemma sorted_entries_map:
  "map_of (sort_key fst (collectEntries raw)) = map_of (collectEntries raw)"
  using collectEntries_distinct [of raw] sorted_entries_distinct [of raw]
  by (simp add: map_of_inject_set)

lemma legacy_logs:
  "collectLogs legacy_raw =
     [\<lparr>row = 2, text' = ''x''\<rparr>, \<lparr>row = 3, text' = ''y''\<rparr>, \<lparr>row = 5, text' = ''FIVE''\<rparr>]"
  by code_simp

lemma legacy_calls:
  "assignCalls legacy_raw =
     [(2, JStr ''a''), (2, JStr ''b''), (4, JStr ''  ''), (2, JStr ''x''), (3, JStr ''y''),
      (5, JStr ''five''), (5, JStr ''FIVE''), (3, JNum 3)]"
  by code_simp

subsection \<open>The response of the proxy and the timer of the hook\<close>

lemma sheetResponse_throws_iff:
  assumes "parsed r \<noteq> Some JNull" and "parsed r \<noteq> Some JUndefined"
  shows "(\<exists>e. sheetResponse r = Inl e) \<longleftrightarrow>
           (\<not> ok r \<or> getField (case parsed r of None \<Rightarrow> JObj [] | Some j \<Rightarrow> j) ''success'' = JBool False)"
  using assms
  by (auto simp: sheetResponse_def readProp_def Let_def split: option.splits)

lemma sheetResponse_result:
  assumes "parsed r \<noteq> Some JNull" and "parsed r \<noteq> Some JUndefined" and "ok r"
    and "getField (case parsed r of None \<Rightarrow> JObj [] | Some j \<Rightarrow> j) ''success'' \<noteq> JBool False"
  shows "sheetResponse r =
           Inr (nullish (getField (case parsed r of None \<Rightarrow> JObj [] | Some j \<Rightarrow> j) ''data'')
                  (case parsed r of None \<Rightarrow> JObj [] | Some j \<Rightarrow> j))"
  using assms
  by (auto simp: sheetResponse_def readProp_def Let_def split: option.splits)

lemma stopPolling_owned:
  "timers_owned s \<Longrightarrow> timerRef (stopPolling s) = None \<and> intervals (stopPolling s) = []"
  by (auto simp: timers_owned_def stopPolling_def clearInterval_def Let_def filter_empty_conv
      split: option.splits)

lemma stopPolling_flag: "\<not> polling (stopPolling s)"
  by (simp add: stopPolling_def Let_def)

lemma stopPolling_twice: "stopPolling (stopPolling s) = stopPolling s"
  by (simp add: stopPolling_def clearInterval_def Let_def split: option.splits)

lemma stopPolling_keeps:
  "last_handle (stopPolling s) = last_handle s \<and>
   effects (stopPolling s) =
     effects s @ (case timerRef s of None \<Rightarrow> [] | Some h \<Rightarrow> if h = 0 then [] else [ClearInterval h])"
  by (simp add: stopPolling_def clearInterval_def Let_def split: option.splits)

lemma timers_owned_stop: "timers_owned s \<Longrightarrow> timers_owned (stopPolling s)"
  using stopPolling_owned [of s] by (simp add: timers_owned_def)

lemma startPolling_owned:
  assumes "timers_owned s"
  shows "timerRef (startPolling p s) = Some (Suc (last_handle s)) \<and>
         intervals (startPolling p s) = [(Suc (last_handle s), p)] \<and>
         polling (startPolling p s) \<and>
         effects (startPolling p s) =
           effects s @ (case timerRef s of None \<Rightarrow> [] | Some h \<Rightarrow> [ClearInterval h]) @
           [FetchCall, SetInterval (Suc (last_handle s)) p] \<and>
         timers_owned (startPolling p s)"
proof -
  have z: "timerRef s \<noteq> Some 0" using assms by (auto simp: timers_owned_def)
  show ?thesis
    using stopPolling_owned [OF assms] stopPolling_keeps [of s] z
    by (auto simp: startPolling_def setInterval_def load_begin_def Let_def timers_owned_def
        split: option.splits)
qed

lemma timers_owned_cong:
  "timerRef t = timerRef s \<Longrightarrow> intervals t = intervals s \<Longrightarrow> last_handle t = last_handle s \<Longrightarrow>
   timers_owned t = timers_owned s"
  by (simp add: timers_owned_def split: option.splits)

lemma timers_owned_load_begin: "timers_owned (load_begin s) = timers_owned s"
  by (rule timers_owned_cong) (simp_all add: load_begin_def)

lemma timers_owned_state: "timers_owned (s\<lparr>state := x\<rparr>) = timers_owned s"
  by (rule timers_owned_cong) simp_all

lemma timers_owned_error: "timers_owned (s\<lparr>error := x\<rparr>) = timers_owned s"
  by (rule timers_owned_cong) simp_all

lemma timers_owned_loading: "timers_owned (s\<lparr>loading := x\<rparr>) = timers_owned s"
  by (rule timers_owned_cong) simp_all

lemma timers_owned_load_end: "timers_owned s \<Longrightarrow> timers_owned (load_end outcome s)"
  by (cases outcome)
     (simp_all add: load_end_def Let_def timers_owned_loading timers_owned_state
        timers_owned_error timers_owned_stop)

lemma timers_owned_step: "timers_owned s \<Longrightarrow> timers_owned (step p e s)"
  by (cases e)
     (simp_all add: step_def timers_owned_stop startPolling_owned timers_owned_load_begin
        timers_owned_load_end)

lemma timers_owned_run: "timers_owned s \<Longrightarrow> timers_owned (run p es s)"
  unfolding run_def by (induction es arbitrary: s) (simp_all add: timers_owned_step)

lemma timers_owned_mounted: "timers_owned mounted"
  by (simp add: timers_owned_def mounted_def)

lemma timers_owned_at_most_one: "timers_owned s \<Longrightarrow> length (intervals s) \<le> 1"
  by (auto simp: timers_owned_def split: option.splits dest: arg_cong [where f = length])

lemma polling_hook_facts:
  "timers_owned polling_hook" "polling polling_hook" "timerRef polling_hook = Some 1"
  "intervals polling_hook = [(1, 2000)]"
  "statusOf run_state = ''RUN''" "statusOf done_state \<noteq> ''RUN''"
  by code_simp+

lemma restart_facts:
  "startPolling 2000 polling_hook =
     polling_hook\<lparr>timerRef := Some 2, intervals := [(2, 2000)], last_handle := 2,
        effects := [FetchCall, SetInterval 1 2000, ClearInterval 1, FetchCall, SetInterval 2 2000]\<rparr>"
  "last_handle polling_hook = 1" "effects polling_hook = [FetchCall, SetInterval 1 2000]"
  by code_simp+

section \<open>Claims about the client\<close>

text \<open>
  Claim C1. When a fetch of the polling controller completes with a sheet state whose
  status, trimmed and upper-cased, is not \<^verbatim>\<open>RUN\<close>, the controller is idle afterwards:
  \<open>polling\<close> is false, the ref holds no timer and no interval timer runs. When the
  status is \<^verbatim>\<open>RUN\<close> after trimming and upper-casing, as for \<^verbatim>\<open>"run "\<close>, the flag, the
  ref and the running timer are what they were before.
\<close>

theorem C1_load_stops_unless_RUN:
  assumes "timers_owned s"
  shows "(statusOf sheetState \<noteq> ''RUN'' \<longrightarrow>
            \<not> polling (load_end (Inr sheetState) s) \<and>
            timerRef (load_end (Inr sheetState) s) = None \<and>
            intervals (load_end (Inr sheetState) s) = []) \<and>
         (statusOf sheetState = ''RUN'' \<longrightarrow>
            polling (load_end (Inr sheetState) s) = polling s \<and>
            timerRef (load_end (Inr sheetState) s) = timerRef s \<and>
            intervals (load_end (Inr sheetState) s) = intervals s)"
proof -
  from assms have "timers_owned (s\<lparr>state := Some sheetState\<rparr>)"
    by (simp add: timers_owned_state)
  then show ?thesis
    using stopPolling_owned [of "s\<lparr>state := Some sheetState\<rparr>"]
      stopPolling_flag [of "s\<lparr>state := Some sheetState\<rparr>"]
    by (simp add: load_end_def Let_def)
qed

theorem C1_witness:
  "timers_owned polling_hook \<and> polling polling_hook \<and>
   statusOf run_state = ''RUN'' \<and>
   polling (load_end (Inr run_state) polling_hook) \<and>
   timerRef (load_end (Inr run_state) polling_hook) = Some 1 \<and>
   intervals (load_end (Inr run_state) polling_hook) = [(1, 2000)] \<and>
   statusOf done_state \<noteq> ''RUN'' \<and>
   \<not> polling (load_end (Inr done_state) polling_hook) \<and>
   timerRef (load_end (Inr done_state) polling_hook) = None \<and>
   intervals (load_end (Inr done_state) polling_hook) = []"
  using C1_load_stops_unless_RUN [OF polling_hook_facts(1), of run_state]
        C1_load_stops_unless_RUN [OF polling_hook_facts(1), of done_state]
        polling_hook_facts
  by simp

text \<open>
  Claim C5. For every raw response, whichever of the accepted shapes it carries, the list
  that \<^verbatim>\<open>collectLogs\<close> returns (a function of the response) has no two entries with the
  same row number, is in ascending order of row number, has no empty or blank text, and
  gives each row number the text of the last call of \<^verbatim>\<open>assign\<close> for that row that
  carried a string that is not blank.
\<close>

theorem C5_collectLogs_distinct_sorted_last_write:
  "distinct (map row (collectLogs raw)) \<and>
   sorted (map row (collectLogs raw)) \<and>
   (\<forall>e \<in> set (collectLogs raw). text' e \<noteq> [] \<and> trim (text' e) \<noteq> []) \<and>
   map_of (map (\<lambda>e. (row e, text' e)) (collectLogs raw)) = lastStored (assignCalls raw)"
proof -
  have d: "distinct (map row (collectLogs raw))"
    by (simp only: rows_of_collectLogs sorted_entries_distinct)
  have s: "sorted (map row (collectLogs raw))"
    by (simp only: rows_of_collectLogs sorted_sort_key)
  have m: "map_of (map (\<lambda>e. (row e, text' e)) (collectLogs raw)) = lastStored (assignCalls raw)"
    by (simp only: pairs_of_collectLogs sorted_entries_map collectEntries_map)
  have n: "text' e \<noteq> [] \<and> trim (text' e) \<noteq> []" if "e \<in> set (collectLogs raw)" for e
  proof -
    from that have "(row e, text' e) \<in> set (map (\<lambda>e. (row e, text' e)) (collectLogs raw))"
      by auto
    moreover have "distinct (map fst (map (\<lambda>e. (row e, text' e)) (collectLogs raw)))"
      using d by (simp add: o_def)
    ultimately have "map_of (map (\<lambda>e. (row e, text' e)) (collectLogs raw)) (row e) = Some (text' e)"
      by (rule map_of_is_SomeI [rotated])
    then have "lastStored (assignCalls raw) (row e) = Some (text' e)" by (simp only: m)
    then have "trim (text' e) \<noteq> []" by (rule lastStored_nonblank)
    then show ?thesis using trim_Nil by auto
  qed
  from d s m n show ?thesis by blast
qed

theorem C5_witness:
  "\<lparr>row = 5, text' = ''FIVE''\<rparr> \<in> set (collectLogs legacy_raw) \<and>
   trim ''FIVE'' \<noteq> [] \<and>
   lastStored (assignCalls legacy_raw) 5 = Some ''FIVE'' \<and>
   lastStored (assignCalls legacy_raw) 2 = Some ''x'' \<and>
   lastStored (assignCalls legacy_raw) 4 = None"
proof -
  have m: "\<lparr>row = 5, text' = ''FIVE''\<rparr> \<in> set (collectLogs legacy_raw)"
    by (simp add: legacy_logs)
  have t: "trim ''FIVE'' \<noteq> []"
    using C5_collectLogs_distinct_sorted_last_write [of legacy_raw] m by fastforce
  have "lastStored (assignCalls legacy_raw) =
        map_of (map (\<lambda>e. (row e, text' e)) (collectLogs legacy_raw))"
    using C5_collectLogs_distinct_sorted_last_write [of legacy_raw] by simp
  then have "lastStored (assignCalls legacy_raw) =
        map_of [(2, ''x''), (3, ''y''), (5, ''FIVE'')]"
    by (simp add: legacy_logs)
  with m t show ?thesis by simp
qed

text \<open>
  Claim C8. A second \<^verbatim>\<open>stopPolling\<close> changes nothing, and after \<^verbatim>\<open>stopPolling\<close> the ref
  holds no timer and no interval timer runs. \<^verbatim>\<open>startPolling\<close> clears the timer of the
  ref if there is one, then starts one fetch, then sets one interval timer with the poll
  interval (2000 ms when the hook is given none), which is then the only timer that
  runs; whatever the sequence of events since the mount, at most one timer runs.
\<close>

theorem C8_stop_idempotent_start_single_timer:
  "stopPolling (stopPolling s) = stopPolling s \<and>
   (timers_owned s \<longrightarrow>
      timerRef (stopPolling s) = None \<and> intervals (stopPolling s) = [] \<and>
      timerRef (startPolling p s) = Some (Suc (last_handle s)) \<and>
      intervals (startPolling p s) = [(Suc (last_handle s), p)] \<and>
      polling (startPolling p s) \<and>
      effects (startPolling p s) =
        effects s @ (case timerRef s of None \<Rightarrow> [] | Some h \<Rightarrow> [ClearInterval h]) @
        [FetchCall, SetInterval (Suc (last_handle s)) p] \<and>
      timers_owned (startPolling p s)) \<and>
   timers_owned (run p es mounted) \<and>
   length (intervals (run p es mounted)) \<le> 1 \<and>
   pollIntervalOf None = 2000"
proof -
  have "timers_owned (run p es mounted)"
    by (rule timers_owned_run) (rule timers_owned_mounted)
  moreover from this have "length (intervals (run p es mounted)) \<le> 1"
    by (rule timers_owned_at_most_one)
  moreover have "pollIntervalOf None = 2000"
    by (simp add: pollIntervalOf_def DEFAULT_POLL_INTERVAL_def)
  ultimately show ?thesis
    using stopPolling_twice [of s] stopPolling_owned [of s] startPolling_owned [of s p]
    by blast
qed

theorem C8_witness:
  "timers_owned polling_hook \<and>
   timerRef (stopPolling polling_hook) = None \<and> intervals (stopPolling polling_hook) = [] \<and>
   stopPolling (stopPolling polling_hook) = stopPolling polling_hook \<and>
   intervals (startPolling 2000 polling_hook) = [(2, 2000)] \<and>
   timerRef (startPolling 2000 polling_hook) = Some 2 \<and>
   effects (startPolling 2000 polling_hook) =
     [FetchCall, SetInterval 1 2000, ClearInterval 1, FetchCall, SetInterval 2 2000]"
  using C8_stop_idempotent_start_single_timer [of polling_hook 2000 "[]"] polling_hook_facts
    restart_facts(2,3)
  by (simp add: numeral_2_eq_2)

text \<open>
  Claim C9. With the endpoint configured, \<^verbatim>\<open>submitAnswer\<close> issues exactly one request
  for every string it is given, three digits or not: a POST whose body has the action
  \<^verbatim>\<open>update-cell\<close>, the cell \<^verbatim>\<open>D2\<close> and the string as value.
\<close>

theorem C9_submitAnswer_writes_D2:
  assumes "VITE_SHEET_WEBAPP_URL env = Some u" and "u \<noteq> []"
  shows "snd (submitAnswer env digits) =
           [\<lparr>url = u, http_method = ''POST'', content_type = ''application/json'',
             payload = [(''action'', JStr ''update-cell''), (''cell'', JStr ''D2''),
                        (''value'', JStr digits)]\<rparr>]"
  using assms
  by (simp add: submitAnswer_def sheetRequest_def getScriptUrl_def requestBody_def Let_def
        split: sum.splits prod.splits)

theorem C9_witness:
  "VITE_SHEET_WEBAPP_URL test_client = Some ''http://localhost:4000/sheet'' \<and>
   ''http://localhost:4000/sheet'' \<noteq> [] \<and>
   snd (submitAnswer test_client ''12ab'') =
     [\<lparr>url = ''http://localhost:4000/sheet'', http_method = ''POST'',
       content_type = ''application/json'',
       payload = [(''action'', JStr ''update-cell''), (''cell'', JStr ''D2''),
                  (''value'', JStr ''12ab'')]\<rparr>]"
proof -
  have a: "VITE_SHEET_WEBAPP_URL test_client = Some ''http://localhost:4000/sheet''"
    by (simp add: test_client_def)
  have b: "''http://localhost:4000/sheet'' \<noteq> []" by simp
  show ?thesis using C9_submitAnswer_writes_D2 [OF a b, of "''12ab''"] a b by simp
qed

text \<open>
  Claim C10 at a response with status 200 whose body is the JSON value \<^verbatim>\<open>null\<close>: the
  status is a 2xx one and there is no \<^verbatim>\<open>success\<close> field that is \<^verbatim>\<open>false\<close>, and
  \<^verbatim>\<open>sheetRequest\<close> throws a \<^verbatim>\<open>TypeError\<close>, from reading \<^verbatim>\<open>success\<close> on \<^verbatim>\<open>null\<close>.
\<close>

theorem C10_null_body_throws:
  "ok null_response \<and>
   getField JNull ''success'' \<noteq> JBool False \<and>
   fst (sheetRequest null_client ''get-state'' []) =
     Inl (TypeError (''Cannot read properties of null (reading '' @ [CHR 0x27] @ ''success'' @ [CHR 0x27] @ '')''))"
  by code_simp

end
